theory Spec2Isabelle
  imports Complex_Main "HOL-Library.Sublist" "HOL-Library.Product_Lexorder"
    "HOL-Library.List_Lexorder" "HOL-Library.AList"
begin

section \<open>Python values\<close>

text \<open>
  A Python \<open>str\<close> is a sequence of Unicode code points; it is modelled as a list of
  natural numbers, so that every string the program can receive has a representation.
  \<open>str\<close> turns an ASCII literal into such a string.
\<close>

type_synonym pystr = "nat list"

definition str :: "string \<Rightarrow> pystr" where
  "str s = map of_char s"

text \<open>
  \<open>str.isdigit\<close> is a built-in of the interpreter, decided by the Unicode database;
  the functions that call it take it as the parameter \<open>isdigit\<close>.  On ASCII text it is
  the following predicate, which the concrete examples use.
\<close>

definition ascii_isdigit :: "nat \<Rightarrow> bool" where
  "ascii_isdigit c = (48 \<le> c \<and> c \<le> 57)"


section \<open>Rate cards and the rating lookup (backend/app/services/rating.py)\<close>

text \<open>
  \<open>RateCard\<close> of backend/app/models/billing.py.  The primary key \<open>id\<close> is the field
  \<open>rc_id\<close>.  \<open>Numeric(10, 4)\<close> values are exact rationals, \<open>DateTime\<close> values are
  integers (a count of microseconds), a nullable column is an option.
\<close>

record RateCard =
  rc_id :: int
  destination_prefix :: pystr
  destination_name :: pystr
  rate_per_minute :: rat
  billing_increment :: int
  connection_fee :: rat
  effective_start :: int
  effective_end :: "int option"
  priority :: int

text \<open>
  The dictionary that the lookup returns.  \<open>tarifa_segundo\<close> is a Python float; the model
  holds the exact quotient.
\<close>

record rating =
  prefijo_id :: "int option"
  zona_id :: "int option"
  prefijo :: pystr
  zona_nombre :: pystr
  zona_descripcion :: pystr
  tarifa_segundo :: rat
  tarifa_id :: "int option"
  numero_valido :: bool

text \<open>\<open>[numero_limpio[:i] for i in range(1, len(numero_limpio) + 1)]\<close>\<close>

definition posibles_prefijos :: "pystr \<Rightarrow> pystr list" where
  "posibles_prefijos numero_limpio =
     map (\<lambda>i. take i numero_limpio) [1 ..< length numero_limpio + 1]"

text \<open>
  \<open>ORDER BY length(destination_prefix) DESC\<close>.  The table is the list of its rows in
  storage order; SQL leaves the order of rows with equal keys open, and the model keeps
  them in storage order (a stable sort).
\<close>

definition order_by_length_desc :: "RateCard list \<Rightarrow> RateCard list" where
  "order_by_length_desc rows =
     sort_key (\<lambda>r. - int (length (destination_prefix r))) rows"

text \<open>
  \<open>db.query(RateCard).filter(RateCard.destination_prefix.in_(posibles_prefijos))
     .order_by(func.length(RateCard.destination_prefix).desc()).all()\<close>
\<close>

definition query_matches :: "RateCard list \<Rightarrow> pystr list \<Rightarrow> RateCard list" where
  "query_matches db prefijos =
     order_by_length_desc (filter (\<lambda>r. destination_prefix r \<in> set prefijos) db)"

definition rating_empty :: rating where
  "rating_empty =
     \<lparr> prefijo_id = None, zona_id = None, prefijo = str ''EMPTY'',
       zona_nombre = str ''Desconocida'',
       zona_descripcion = str ''N'' @ [250] @ str ''mero vac'' @ [237] @ str ''o'',
       tarifa_segundo = 0, tarifa_id = None, numero_valido = False \<rparr>"

definition rating_unknown :: "pystr \<Rightarrow> rating" where
  "rating_unknown numero_marcado =
     \<lparr> prefijo_id = None, zona_id = None, prefijo = str ''UNKNOWN'',
       zona_nombre = str ''Desconocida'',
       zona_descripcion = str ''N'' @ [250] @ str ''mero no reconocido: '' @ numero_marcado,
       tarifa_segundo = 0, tarifa_id = None, numero_valido = False \<rparr>"

definition rating_match :: "RateCard \<Rightarrow> rating" where
  "rating_match best_match =
     \<lparr> prefijo_id = Some (rc_id best_match), zona_id = Some (rc_id best_match),
       prefijo = destination_prefix best_match,
       zona_nombre = destination_name best_match,
       zona_descripcion = destination_name best_match,
       tarifa_segundo = rate_per_minute best_match / 60,
       tarifa_id = Some (rc_id best_match), numero_valido = True \<rparr>"

definition determinar_zona_y_tarifa :: "(nat \<Rightarrow> bool) \<Rightarrow> pystr \<Rightarrow> RateCard list \<Rightarrow> rating" where
  "determinar_zona_y_tarifa isdigit numero_marcado db =
     (let numero_limpio = filter isdigit numero_marcado in
      if numero_limpio = [] then rating_empty
      else
        (case query_matches db (posibles_prefijos numero_limpio) of
           best_match # _ \<Rightarrow> rating_match best_match
         | [] \<Rightarrow> rating_unknown numero_marcado))"

text \<open>
  The sibling lookup \<open>search_rate_for_number\<close> of backend/app/api/routers/rate_cards.py,
  at the instant \<open>now\<close> (\<open>datetime.utcnow()\<close>): the same prefix enumeration, with the
  validity window in the filter and the priority in the ordering.  It raises HTTP 400
  for a number without digits and HTTP 404 when nothing matches.
\<close>

datatype http_error = HTTP400 | HTTP404 | HTTP500

definition search_rate_for_number ::
  "(nat \<Rightarrow> bool) \<Rightarrow> int \<Rightarrow> pystr \<Rightarrow> RateCard list \<Rightarrow> http_error + RateCard" where
  "search_rate_for_number isdigit now phone_number db =
     (let clean_number = filter isdigit phone_number in
      if clean_number = [] then Inl HTTP400
      else
        (let prefixes = map (\<lambda>i. take i clean_number) (rev [1 ..< length clean_number + 1]);
             rows = filter (\<lambda>r. destination_prefix r \<in> set prefixes
                                \<and> effective_start r \<le> now
                                \<and> (case effective_end r of None \<Rightarrow> True | Some e \<Rightarrow> e > now)) db
         in case sort_key (\<lambda>r. (- int (length (destination_prefix r)), - priority r)) rows of
              rate # _ \<Rightarrow> Inr rate
            | [] \<Rightarrow> Inl HTTP404))"

text \<open>
  A card as \<open>RateCard(destination_prefix=..., destination_name=..., rate_per_minute=...)\<close>
  creates it, the other columns at their defaults; and the three cards of
  backend/verify_rating.py.
\<close>

definition new_RateCard :: "int \<Rightarrow> pystr \<Rightarrow> pystr \<Rightarrow> rat \<Rightarrow> RateCard" where
  "new_RateCard i p n r =
     \<lparr> rc_id = i, destination_prefix = p, destination_name = n, rate_per_minute = r,
       billing_increment = 60, connection_fee = 0, effective_start = 0,
       effective_end = None, priority = 0 \<rparr>"

definition verify_rating_db :: "RateCard list" where
  "verify_rating_db =
     [new_RateCard 1 (str ''1'') (str ''USA'') (1 / 100),
      new_RateCard 2 (str ''12'') (str ''USA Area'') (2 / 100),
      new_RateCard 3 (str ''123'') (str ''USA SubArea'') (3 / 100)]"

text \<open>
  A card that was valid from instant 0 to instant 100 (a soft-deleted card: the router's
  \<open>delete_rate_card\<close> sets \<open>effective_end\<close>), and two cards for one prefix that differ
  in priority.
\<close>

definition expired_card :: RateCard where
  "expired_card = (new_RateCard 1 (str ''1'') (str ''USA'') (1 / 100)) \<lparr> effective_end := Some 100 \<rparr>"

definition low_priority_card :: RateCard where
  "low_priority_card = (new_RateCard 1 (str ''1'') (str ''USA'') (1 / 100)) \<lparr> priority := 0 \<rparr>"

definition high_priority_card :: RateCard where
  "high_priority_card = (new_RateCard 2 (str ''1'') (str ''USA premium'') (5 / 100)) \<lparr> priority := 10 \<rparr>"

section \<open>Accounts and top-up (backend/app/models/billing.py, backend/app/api/routers/accounts.py)\<close>

text \<open>
  \<open>Decimal\<close> and \<open>Numeric\<close> amounts are exact rationals; the rounding of a column to its
  scale on write is not part of the model.  The primary keys \<open>id\<close> are the fields
  \<open>acc_id\<close> and \<open>bt_id\<close>.
\<close>

datatype AccountType = PREPAID | POSTPAID

datatype AccountStatus = ACTIVE | SUSPENDED | CLOSED

record Account =
  acc_id :: int
  account_number :: pystr
  customer_phone :: "pystr option"
  account_type :: AccountType
  balance :: rat
  credit_limit :: rat
  currency :: pystr
  status :: AccountStatus
  max_concurrent_calls :: "int option"

record BalanceTransaction =
  bt_id :: int
  account_id :: int
  amount :: rat
  previous_balance :: rat
  new_balance :: rat
  transaction_type :: pystr
  reason :: "pystr option"
  call_uuid :: "pystr option"
  created_at :: "int option"

text \<open>The two tables of the ledger, each the list of its rows.\<close>

record ledger =
  accounts :: "Account list"
  balance_transactions :: "BalanceTransaction list"

text \<open>
  \<open>topup_account\<close>: HTTP 404 when no account has the id; otherwise
  \<open>db_account.balance += amount; db.commit()\<close> and the response carries the new balance.
  The session writes the changed row back by its primary key.
\<close>

definition topup_account :: "int \<Rightarrow> rat \<Rightarrow> ledger \<Rightarrow> (http_error + rat) \<times> ledger" where
  "topup_account account_id' amount' db =
     (case find (\<lambda>a. acc_id a = account_id') (accounts db) of
        None \<Rightarrow> (Inl HTTP404, db)
      | Some db_account \<Rightarrow>
          (let new_value = balance db_account + amount' in
           (Inr new_value,
            db \<lparr> accounts :=
                   map (\<lambda>a. if acc_id a = acc_id db_account then a \<lparr> balance := new_value \<rparr> else a)
                     (accounts db) \<rparr>)))"

text \<open>
  The signed sum of the transactions that reference an account, and the reconciliation
  of the spec: the balance of every account is its initial balance plus that sum.
\<close>

definition transactions_sum :: "ledger \<Rightarrow> int \<Rightarrow> rat" where
  "transactions_sum db i =
     sum_list (map amount (filter (\<lambda>t. account_id t = i) (balance_transactions db)))"

definition reconciled :: "(int \<Rightarrow> rat) \<Rightarrow> ledger \<Rightarrow> bool" where
  "reconciled initial_balance db =
     list_all (\<lambda>a. balance a = initial_balance (acc_id a) + transactions_sum db (acc_id a))
       (accounts db)"

text \<open>A ledger with one prepaid account of balance 0 and no transaction.\<close>

definition one_account :: ledger where
  "one_account =
     \<lparr> accounts =
         [\<lparr> acc_id = 1, account_number = str ''ACC-1'', customer_phone = None,
            account_type = PREPAID, balance = 0, credit_limit = 0, currency = str ''USD'',
            status = ACTIVE, max_concurrent_calls = Some 1 \<rparr>],
       balance_transactions = [] \<rparr>"


section \<open>The legacy balance and the cost of a call (main.py)\<close>

text \<open>
  The tables that \<open>create_cdr\<close> and \<open>recargar_saldo\<close> of main.py read and write:
  \<open>prefixes\<close>, \<open>rate_zones\<close> (with the columns of backend/app/models/zones.py),
  \<open>saldo_anexos\<close>, \<open>saldo_auditoria\<close>, \<open>recargas\<close> and \<open>cdr\<close>.  Python floats are held
  as exact rationals.  Field names that several tables share carry the table's prefix.
\<close>

record Prefijo =
  px_zone_id :: "int option"
  px_prefix :: pystr
  px_prefix_length :: "int option"

record RateZone =
  rz_zone_id :: "int option"
  rz_rate_per_minute :: "rat option"
  rz_rate_per_call :: rat
  rz_billing_increment :: int
  rz_effective_from :: "int option"
  rz_enabled :: bool

record SaldoAnexo =
  sa_calling_number :: pystr
  saldo :: rat

record Auditoria =
  au_calling_number :: pystr
  saldo_anterior :: rat
  saldo_nuevo :: rat
  tipo_accion :: pystr

record Recarga =
  re_calling_number :: pystr
  monto :: rat


record CDR =
  cdr_calling_number :: pystr
  cdr_called_number :: pystr
  cdr_start_time :: "int option"
  cdr_end_time :: "int option"
  duration_seconds :: int
  duration_billable :: int
  cost :: rat
  cdr_status :: pystr
  cdr_direction :: "pystr option"
  release_cause :: "int option"
  connect_time :: "int option"
  dialing_time :: "int option"
  network_reached_time :: "int option"
  network_alerting_time :: "int option"
  cdr_zona_id :: "int option"

record legacy_db =
  prefixes :: "Prefijo list"
  rate_zones :: "RateZone list"
  saldo_anexos :: "SaldoAnexo list"
  saldo_auditoria :: "Auditoria list"
  recargas :: "Recarga list"
  cdr :: "CDR list"






text \<open>
  \<open>recargar_saldo\<close>, the recharge of the legacy balance: it adds the amount to the
  balance of the number (or inserts the row), and appends one audit row with the balance
  before and after and one row to \<open>recargas\<close>.
\<close>

definition recargar_saldo :: "pystr \<Rightarrow> rat \<Rightarrow> legacy_db \<Rightarrow> legacy_db" where
  "recargar_saldo number amount' db =
     (let saldo_actual = find (\<lambda>s. sa_calling_number s = number) (saldo_anexos db) in
      db \<lparr> saldo_anexos :=
             (case saldo_actual of
                Some _ \<Rightarrow> map (\<lambda>s. if sa_calling_number s = number
                                     then s \<lparr> saldo := saldo s + amount' \<rparr> else s)
                            (saldo_anexos db)
              | None \<Rightarrow> saldo_anexos db @ [\<lparr> sa_calling_number = number, saldo = amount' \<rparr>]),
           saldo_auditoria := saldo_auditoria db @
             [\<lparr> au_calling_number = number,
                saldo_anterior = (case saldo_actual of Some s \<Rightarrow> saldo s | None \<Rightarrow> 0),
                saldo_nuevo = (case saldo_actual of Some s \<Rightarrow> saldo s + amount' | None \<Rightarrow> amount'),
                tipo_accion = str ''recarga'' \<rparr>],
           recargas := recargas db @ [\<lparr> re_calling_number = number, monto = amount' \<rparr>] \<rparr>)"





section \<open>Active calls (backend/app/api/endpoints.py, main.py)\<close>

text \<open>
  The values of a decoded JSON body and of the attributes of a row: Python objects.
  \<open>truthy\<close> is Python's truth value, \<open>py_or\<close> is \<open>a or b\<close>.
\<close>

datatype pyval =
    PNone
  | PBool bool
  | PInt int
  | PFloat rat
  | PStr pystr
  | PDateTime int
  | PList "pyval list"
  | PDict "(pystr \<times> pyval) list"

fun truthy :: "pyval \<Rightarrow> bool" where
  "truthy PNone = False"
| "truthy (PBool b) = b"
| "truthy (PInt n) = (n \<noteq> 0)"
| "truthy (PFloat x) = (x \<noteq> 0)"
| "truthy (PStr s) = (s \<noteq> [])"
| "truthy (PDateTime t) = True"
| "truthy (PList l) = (l \<noteq> [])"
| "truthy (PDict d) = (d \<noteq> [])"

definition py_or :: "pyval \<Rightarrow> pyval \<Rightarrow> pyval" where
  "py_or a b = (if truthy a then a else b)"

fun is_str :: "pyval \<Rightarrow> bool" where
  "is_str (PStr s) = True"
| "is_str v = False"


text \<open>
  A \<open>dict\<close> with string keys is a list of items; the list denotes the dictionary that
  binds each key to the value of its first item.  \<open>dict_get d k\<close> is \<open>d.get(k)\<close>,
  \<open>dict_get_default d k v\<close> is \<open>d.get(k, v)\<close>, and \<open>dict_items d\<close> is \<open>d.items()\<close>, one
  item for each key.
\<close>

type_synonym pydict = "(pystr \<times> pyval) list"

definition dict_get :: "pydict \<Rightarrow> pystr \<Rightarrow> pyval" where
  "dict_get d k = (case map_of d k of None \<Rightarrow> PNone | Some v \<Rightarrow> v)"

definition dict_get_default :: "pydict \<Rightarrow> pystr \<Rightarrow> pyval \<Rightarrow> pyval" where
  "dict_get_default d k v = (case map_of d k of None \<Rightarrow> v | Some w \<Rightarrow> w)"

definition dict_items :: "pydict \<Rightarrow> (pystr \<times> pyval) list" where
  "dict_items d = AList.clearjunk d"

text \<open>
  A row of the table \<open>active_calls\<close>, with the columns of backend/app/models/cdr.py and
  the column \<open>zone\<close> that main.py writes.  The serial primary key \<open>id\<close> is not a field: it
  identifies a row, which the model does by the row's position in the table (the list of
  the rows), so \<open>WHERE id = :id\<close> with the id of a row just read addresses that row.
\<close>

record ActiveCall =
  call_id :: pyval
  calling_number :: pyval
  called_number :: pyval
  direction :: pyval
  zone :: pyval
  start_time :: pyval
  current_duration :: pyval
  current_cost :: pyval
  connection_id :: pyval
  last_updated :: pyval
  server :: pyval

fun update_first :: "('a \<Rightarrow> bool) \<Rightarrow> ('a \<Rightarrow> 'a) \<Rightarrow> 'a list \<Rightarrow> 'a list" where
  "update_first P f [] = []"
| "update_first P f (x # xs) = (if P x then f x # xs else x # update_first P f xs)"

fun delete_first :: "('a \<Rightarrow> bool) \<Rightarrow> 'a list \<Rightarrow> 'a list" where
  "delete_first P [] = []"
| "delete_first P (x # xs) = (if P x then xs else x # delete_first P xs)"

text \<open>The JSON responses \<open>{"status": ...}\<close> of the endpoints.\<close>

datatype response = Status_ok | Status_not_found | Status_error

text \<open>
  \<open>datetime.fromisoformat(s.replace('Z', '+00:00'))\<close> for the value of the key
  \<open>start_time\<close>, and \<open>datetime.now()\<close> when the value is falsy.  \<open>fromisoformat\<close> is a
  built-in and a parameter here (\<open>None\<close> when it raises \<open>ValueError\<close>); a truthy value that
  is not a string has no method \<open>replace\<close>.  The result is \<open>None\<close> when the expression
  raises.
\<close>

definition replace_Z :: "pystr \<Rightarrow> pystr" where
  "replace_Z s = concat (map (\<lambda>c. if c = 90 then str ''+00:00'' else [c]) s)"

definition start_time_of :: "(pystr \<Rightarrow> int option) \<Rightarrow> int \<Rightarrow> pydict \<Rightarrow> pyval option" where
  "start_time_of fromisoformat now call_data =
     (let v = dict_get call_data (str ''start_time'') in
      if truthy v then
        (case v of
           PStr s \<Rightarrow> map_option PDateTime (fromisoformat (replace_Z s))
         | _ \<Rightarrow> None)
      else Some (PDateTime now))"

subsection \<open>The backend endpoints\<close>

text \<open>
  \<open>setattr(existing_call, key, value)\<close> under \<open>hasattr(existing_call, key)\<close>, for the
  mapped columns of the class \<open>ActiveCall\<close> of the backend (which has no \<open>zone\<close>).  A
  key that names no attribute is skipped; keys that name the primary key or an attribute
  of the class that is not a column do not reach a field of the model.
\<close>

definition setattr_ActiveCall :: "pystr \<Rightarrow> pyval \<Rightarrow> ActiveCall \<Rightarrow> ActiveCall" where
  "setattr_ActiveCall key v r =
     (if key = str ''call_id'' then r \<lparr> call_id := v \<rparr>
      else if key = str ''calling_number'' then r \<lparr> calling_number := v \<rparr>
      else if key = str ''called_number'' then r \<lparr> called_number := v \<rparr>
      else if key = str ''direction'' then r \<lparr> direction := v \<rparr>
      else if key = str ''start_time'' then r \<lparr> start_time := v \<rparr>
      else if key = str ''current_duration'' then r \<lparr> current_duration := v \<rparr>
      else if key = str ''current_cost'' then r \<lparr> current_cost := v \<rparr>
      else if key = str ''connection_id'' then r \<lparr> connection_id := v \<rparr>
      else if key = str ''last_updated'' then r \<lparr> last_updated := v \<rparr>
      else if key = str ''server'' then r \<lparr> server := v \<rparr>
      else r)"

text \<open>
  \<open>for key, value in call_data.items(): if hasattr(existing_call, key): setattr(...)\<close>,
  then \<open>existing_call.last_updated = datetime.now()\<close>.
\<close>


definition merge_call_data :: "int \<Rightarrow> pydict \<Rightarrow> ActiveCall \<Rightarrow> ActiveCall" where
  "merge_call_data now call_data existing_call =
     (foldl (\<lambda>r (key, v). setattr_ActiveCall key v r) existing_call (dict_items call_data))
       \<lparr> last_updated := PDateTime now \<rparr>"

text \<open>
  The call \<open>determinar_zona_y_tarifa(called_number, db)\<close>, whose result the endpoint
  drops, raises \<open>TypeError\<close> when \<open>filter(str.isdigit, called_number)\<close> meets a value that
  is not iterable or an item that is not a string.
\<close>

definition rating_raises :: "pyval \<Rightarrow> bool" where
  "rating_raises v =
     (case v of
        PStr s \<Rightarrow> False
      | PList l \<Rightarrow> \<not> list_all is_str l
      | PDict d \<Rightarrow> False
      | _ \<Rightarrow> True)"

text \<open>
  \<open>report_active_call\<close> of the backend.  \<open>db.commit()\<close> raises, and the request fails
  with HTTP 500 and leaves the table as it was, when the database rejects the new rows
  (a value that does not fit its column, a violated constraint); \<open>accepts\<close> stands for
  that check.
\<close>

definition report_active_call ::
  "(ActiveCall list \<Rightarrow> bool) \<Rightarrow> (pystr \<Rightarrow> int option) \<Rightarrow> int \<Rightarrow> pydict \<Rightarrow> ActiveCall list
     \<Rightarrow> (http_error + response) \<times> ActiveCall list" where
  "report_active_call accepts fromisoformat now call_data db =
     (let call_id' = dict_get call_data (str ''call_id'') in
      if \<not> truthy call_id' then (Inr Status_error, db)
      else
        (let called = py_or (dict_get call_data (str ''called_number''))
                            (dict_get call_data (str ''destination'')) in
         if truthy called \<and> rating_raises called then (Inl HTTP500, db)
         else
           (case find (\<lambda>r. call_id r = call_id') db of
              Some existing_call \<Rightarrow>
                (let db' = update_first (\<lambda>r. call_id r = call_id') (merge_call_data now call_data) db
                 in if accepts db' then (Inr Status_ok, db') else (Inl HTTP500, db))
            | None \<Rightarrow>
                (case start_time_of fromisoformat now call_data of
                   None \<Rightarrow> (Inl HTTP500, db)
                 | Some st \<Rightarrow>
                     (let new_call =
                        \<lparr> call_id = call_id',
                          calling_number = dict_get call_data (str ''calling_number''),
                          called_number = called,
                          direction = dict_get_default call_data (str ''direction'') (PStr (str ''unknown'')),
                          zone = PNone,
                          start_time = st,
                          current_duration = dict_get_default call_data (str ''duration'') (PInt 0),
                          current_cost = dict_get_default call_data (str ''cost'') (PFloat 0),
                          connection_id = dict_get call_data (str ''connection_id''),
                          last_updated = PDateTime now,
                          server = PNone \<rparr>;
                        db' = db @ [new_call]
                      in if accepts db' then (Inr Status_ok, db') else (Inl HTTP500, db))))))"


subsection \<open>The endpoints of main.py\<close>







text \<open>
  Two reports for the call id "c1", as the listener sends them on CHANNEL_CREATE and on
  CHANNEL_ANSWER; and tables for the removal by connection id.
\<close>

definition create_report :: pydict where
  "create_report =
     [(str ''call_id'', PStr (str ''c1'')),
      (str ''calling_number'', PStr (str ''1001'')),
      (str ''called_number'', PStr (str ''2001'')),
      (str ''start_time'', PStr (str ''2024-01-01T00:00:00'')),
      (str ''direction'', PStr (str ''outbound'')),
      (str ''status'', PStr (str ''dialing''))]"

definition answer_report :: pydict where
  "answer_report =
     [(str ''call_id'', PStr (str ''c1'')),
      (str ''status'', PStr (str ''answered'')),
      (str ''answer_time'', PStr (str ''2024-01-01T00:00:05''))]"


text \<open>The row that the backend stores for \<open>create_report\<close> at instant 1.\<close>

definition created_row :: ActiveCall where
  "created_row =
     \<lparr> call_id = PStr (str ''c1''), calling_number = PStr (str ''1001''),
       called_number = PStr (str ''2001''), direction = PStr (str ''outbound''),
       zone = PNone, start_time = PDateTime 0, current_duration = PInt 0,
       current_cost = PFloat 0, connection_id = PNone, last_updated = PDateTime 1,
       server = PNone \<rparr>"

section \<open>The event-socket client (connectors/freeswitch/esl_listener.py)\<close>

text \<open>
  Bytes read from the socket are Isabelle strings (a \<open>char\<close> is a byte); decoded text is
  a \<open>pystr\<close>.  The built-ins of the interpreter that the client calls are parameters,
  collected in a record: \<open>bytes.decode\<close> (\<open>None\<close> when it raises), \<open>str.isspace\<close> (which
  \<open>strip\<close> uses), \<open>int\<close> applied to a string (\<open>None\<close> when it raises),
  whether \<open>datetime.fromtimestamp\<close> accepts a count of microseconds, and
  \<open>urllib.parse.unquote\<close> (\<open>None\<close> when it raises).
\<close>

record builtins =
  decode :: "string \<Rightarrow> pystr option"
  isspace :: "nat \<Rightarrow> bool"
  to_int :: "pystr \<Rightarrow> int option"
  timestamp_ok :: "int \<Rightarrow> bool"
  unquote :: "pystr \<Rightarrow> pystr option"

definition LF :: char where
  "LF = CHR 0x0A"

text \<open>\<open>s.strip()\<close>, \<open>sub in s\<close>, \<open>s.split("\n")\<close>, and the two parts of \<open>s.split(":", 1)\<close>.\<close>

definition strip :: "builtins \<Rightarrow> pystr \<Rightarrow> pystr" where
  "strip py s = rev (dropWhile (isspace py) (rev (dropWhile (isspace py) s)))"

fun contains :: "'a list \<Rightarrow> 'a list \<Rightarrow> bool" where
  "contains sub [] = (sub = [])"
| "contains sub (y # ys) = (prefix sub (y # ys) \<or> contains sub ys)"

fun split_lines :: "pystr \<Rightarrow> pystr list" where
  "split_lines [] = [[]]"
| "split_lines (c # cs) =
     (if c = 10 then [] # split_lines cs
      else (case split_lines cs of l # ls \<Rightarrow> (c # l) # ls | [] \<Rightarrow> [[c]]))"

definition before_colon :: "pystr \<Rightarrow> pystr" where
  "before_colon s = takeWhile (\<lambda>c. c \<noteq> 58) s"

definition after_colon :: "pystr \<Rightarrow> pystr" where
  "after_colon s = tl (dropWhile (\<lambda>c. c \<noteq> 58) s)"

text \<open>
  A dictionary from strings to strings is the list of its items in insertion order;
  \<open>d[k] = v\<close> is \<open>AList.update k v d\<close>.  The statement
  \<open>if ":" in line: key, value = line.split(":", 1); headers[key.strip()] = value.strip()\<close>:
\<close>

type_synonym strdict = "(pystr \<times> pystr) list"

definition header_line :: "builtins \<Rightarrow> pystr \<Rightarrow> strdict \<Rightarrow> strdict" where
  "header_line py line headers =
     (if 58 \<in> set line
      then AList.update (strip py (before_colon line)) (strip py (after_colon line)) headers
      else headers)"

text \<open>
  \<open>parse_event_body\<close>: the lines of the body with a colon, then \<open>unquote\<close> on every value
  that holds a percent sign (the value stays when \<open>unquote\<close> raises).
\<close>

definition parse_event_body :: "builtins \<Rightarrow> pystr \<Rightarrow> strdict" where
  "parse_event_body py body =
     map (\<lambda>(k, v). (k, if 37 \<in> set v then (case unquote py v of Some u \<Rightarrow> u | None \<Rightarrow> v) else v))
       (foldl (\<lambda>data line. header_line py line data) [] (split_lines body))"

text \<open>
  \<open>process_event\<close> and the three reports.  A report sends requests to the backend
  (\<open>send_to_backend\<close> catches the failures of a request); the payloads are not modelled.
  \<open>report_call_end\<close> raises when \<open>int\<close> rejects the creation time (or there is none),
  the duration or the billed seconds, or \<open>datetime.fromtimestamp\<close> rejects the time.
  \<open>process_event\<close> is \<open>None\<close> when it raises.
\<close>

datatype request = POST pystr | DELETE pystr

definition int_or_zero :: "builtins \<Rightarrow> strdict \<Rightarrow> pystr \<Rightarrow> int option" where
  "int_or_zero py event key =
     (case map_of event key of
        None \<Rightarrow> Some 0
      | Some v \<Rightarrow> if v = [] then Some 0 else to_int py v)"

definition report_call_end :: "builtins \<Rightarrow> strdict \<Rightarrow> request list option" where
  "report_call_end py event =
     (case map_of event (str ''Caller-Channel-Created-Time'') of
        None \<Rightarrow> None
      | Some created \<Rightarrow>
          (case to_int py created of
             None \<Rightarrow> None
           | Some t \<Rightarrow>
               if \<not> timestamp_ok py t then None
               else if int_or_zero py event (str ''variable_duration'') = None then None
               else if int_or_zero py event (str ''variable_billsec'') = None then None
               else Some [POST (str ''/cdr''),
                          DELETE (str ''/active-calls/'' @
                            (case map_of event (str ''Unique-ID'') of
                               Some u \<Rightarrow> u
                             | None \<Rightarrow> str ''None''))]))"

definition process_event :: "builtins \<Rightarrow> strdict \<Rightarrow> request list option" where
  "process_event py event =
     (let event_name = map_of event (str ''Event-Name'') in
      if event_name = Some (str ''CHANNEL_CREATE'') then Some [POST (str ''/active-calls'')]
      else if event_name = Some (str ''CHANNEL_ANSWER'') then Some [POST (str ''/active-calls'')]
      else if event_name = Some (str ''CHANNEL_HANGUP'') then report_call_end py event
      else Some [])"

text \<open>
  The client runs against an environment that decides the outcome of every awaited
  network call, in program order: \<open>asyncio.open_connection\<close>, \<open>reader.readline\<close>,
  \<open>reader.read\<close> and \<open>writer.drain\<close> each take the next outcome, the bytes returned (empty
  for a call that returns nothing) or an exception.  What the client does is the list of
  its actions: a connection opened, bytes written, the writer closed, a sleep of so many
  seconds, \<open>process_event\<close> called with the event, a request sent to the backend.
\<close>

datatype outcome = Ok string | Raise

datatype action =
    Open
  | Write string
  | Close
  | Sleep nat
  | Process strdict
  | Request request

text \<open>
  The points where the client awaits the network: in \<open>connect\<close>, in the loop of
  \<open>authenticate\<close>, at the \<open>drain\<close> after the auth command, in the loop of
  \<open>read_response\<close> (with the response read so far), at the \<open>drain\<close> of \<open>subscribe\<close>, in
  the header loop of \<open>listen\<close> (with the headers read so far) and at the \<open>read\<close> of a
  body.  \<open>connect\<close> is called again from the handler of \<open>connect\<close> and from the handler
  of \<open>listen\<close>; the stack lists those pending handlers, innermost first.
\<close>

datatype pc =
    Connect
  | Auth
  | AuthDrain
  | Response pystr
  | SubDrain
  | Headers strdict
  | Body

datatype frame = ConnectExcept | ListenExcept

type_synonym config = "pc \<times> frame list"

text \<open>
  \<open>connect\<close> returns when \<open>authenticate\<close> returns.  A \<open>connect\<close> called from the handler
  of \<open>connect\<close> returns into that handler, which returns too; one called from the handler
  of \<open>listen\<close> returns into \<open>listen\<close>, which returns through \<open>subscribe\<close> into the loop
  of the \<open>authenticate\<close> that called it, and the loop goes on.  \<open>None\<close>: the outermost
  \<open>connect\<close> has returned and the program ends.
\<close>

fun connect_returns :: "frame list \<Rightarrow> config option" where
  "connect_returns [] = None"
| "connect_returns (ConnectExcept # stack) = connect_returns stack"
| "connect_returns (ListenExcept # stack) = Some (Auth, stack)"

text \<open>
  An exception in the \<open>try\<close> of \<open>connect\<close> (raised in \<open>authenticate\<close>, \<open>read_response\<close>
  or \<open>subscribe\<close>): \<open>await asyncio.sleep(5); await self.connect()\<close>.  An exception in
  the \<open>try\<close> of \<open>listen\<close>: \<open>self.writer.close(); await self.connect()\<close>.
\<close>

definition connect_except :: "frame list \<Rightarrow> action list \<times> config option" where
  "connect_except stack = ([Sleep 5], Some (Connect, ConnectExcept # stack))"

definition listen_except :: "frame list \<Rightarrow> action list \<times> config option" where
  "listen_except stack = ([Close], Some (Connect, ListenExcept # stack))"

definition auth_command :: string where
  "auth_command = ''auth ClueCon'' @ [LF, LF]"

definition events_command :: string where
  "events_command = ''events plain CHANNEL_CREATE CHANNEL_ANSWER CHANNEL_HANGUP'' @ [LF, LF]"

text \<open>The body of an event: decoded, parsed and handed to \<open>process_event\<close>.\<close>

definition dispatch :: "builtins \<Rightarrow> frame list \<Rightarrow> string \<Rightarrow> action list \<times> config option" where
  "dispatch py stack body_data =
     (case decode py body_data of
        None \<Rightarrow> listen_except stack
      | Some body_str \<Rightarrow>
          (let event_data = parse_event_body py body_str in
           case process_event py event_data of
             None \<Rightarrow> (Process event_data # fst (listen_except stack), snd (listen_except stack))
           | Some requests \<Rightarrow>
               (Process event_data # map Request requests, Some (Headers [], stack))))"

text \<open>
  The end of a header block: without \<open>Content-Length\<close> the loop of \<open>listen\<close> starts
  over; with it, \<open>int\<close> of its value (which may raise) is the number of bytes to read,
  and \<open>read(0)\<close> returns the empty body at once.
\<close>

definition end_of_headers :: "builtins \<Rightarrow> strdict \<Rightarrow> frame list \<Rightarrow> action list \<times> config option" where
  "end_of_headers py headers stack =
     (case map_of headers (str ''Content-Length'') of
        None \<Rightarrow> ([], Some (Headers [], stack))
      | Some v \<Rightarrow>
          (case to_int py v of
             None \<Rightarrow> listen_except stack
           | Some content_length \<Rightarrow>
               if content_length = 0 then dispatch py stack []
               else ([], Some (Body, stack))))"

text \<open>One awaited call: the actions up to the next awaited call, and where that is.\<close>

fun step :: "builtins \<Rightarrow> pc \<Rightarrow> frame list \<Rightarrow> outcome \<Rightarrow> action list \<times> config option" where
  "step py Connect stack (Ok b) = ([Open], Some (Auth, stack))"
| "step py Connect stack Raise = connect_except stack"
| "step py Auth stack (Ok line) =
     (if line = [] \<or> line = [LF] then ([], connect_returns stack)
      else if contains ''Content-Type: auth/request'' line
      then ([Write auth_command], Some (AuthDrain, stack))
      else ([], Some (Auth, stack)))"
| "step py Auth stack Raise = connect_except stack"
| "step py AuthDrain stack (Ok b) = ([], Some (Response [], stack))"
| "step py AuthDrain stack Raise = connect_except stack"
| "step py (Response response) stack (Ok line) =
     (case decode py line of
        None \<Rightarrow> connect_except stack
      | Some s \<Rightarrow>
          if line = [LF] then
            (if contains (str ''Reply-Text: +OK accepted'') (response @ s)
             then ([Write events_command], Some (SubDrain, stack))
             else ([Close], Some (Auth, stack)))
          else ([], Some (Response (response @ s), stack)))"
| "step py (Response response) stack Raise = connect_except stack"
| "step py SubDrain stack (Ok b) = ([], Some (Headers [], stack))"
| "step py SubDrain stack Raise = connect_except stack"
| "step py (Headers headers) stack (Ok line) =
     (case decode py line of
        None \<Rightarrow> listen_except stack
      | Some s \<Rightarrow>
          if strip py s = [] then end_of_headers py headers stack
          else ([], Some (Headers (header_line py (strip py s) headers), stack)))"
| "step py (Headers headers) stack Raise = listen_except stack"
| "step py Body stack (Ok body_data) = dispatch py stack body_data"
| "step py Body stack Raise = listen_except stack"

text \<open>
  The run of the client on the outcomes that the environment supplies.  The result is
  the list of the actions and the point where the client waits for the next outcome, or
  \<open>None\<close> when the program has ended.  \<open>client\<close> is
  \<open>loop.run_until_complete(client.connect())\<close>.
\<close>

fun run :: "builtins \<Rightarrow> config \<Rightarrow> outcome list \<Rightarrow> action list \<times> config option" where
  "run py cfg [] = ([], Some cfg)"
| "run py cfg (out # script) =
     (case step py (fst cfg) (snd cfg) out of
        (acts, None) \<Rightarrow> (acts, None)
      | (acts, Some cfg') \<Rightarrow> (acts @ fst (run py cfg' script), snd (run py cfg' script)))"


text \<open>
  The built-ins on ASCII text, for the examples: \<open>decode\<close> rejects a byte above 127,
  \<open>int\<close> accepts a non-empty string of decimal digits.
\<close>

definition ascii_decode :: "string \<Rightarrow> pystr option" where
  "ascii_decode b = (if list_all (\<lambda>c. (of_char c :: nat) < 128) b then Some (map of_char b) else None)"

definition ascii_int :: "pystr \<Rightarrow> int option" where
  "ascii_int s =
     (if s \<noteq> [] \<and> list_all ascii_isdigit s
      then Some (foldl (\<lambda>a c. 10 * a + (int c - 48)) 0 s) else None)"

definition ascii_builtins :: builtins where
  "ascii_builtins =
     \<lparr> decode = ascii_decode,
       isspace = (\<lambda>c. c \<in> set [9, 10, 11, 12, 13, 28, 29, 30, 31, 32]),
       to_int = ascii_int,
       timestamp_ok = (\<lambda>t. True),
       unquote = Some \<rparr>"




text \<open>
  The headers that the loop of \<open>listen\<close> has collected after the given lines, none of
  them blank, starting from \<open>headers\<close>; and the test that a line is a header line that
  does not set the key \<open>Content-Length\<close>.
\<close>

fun read_headers :: "builtins \<Rightarrow> strdict \<Rightarrow> string list \<Rightarrow> strdict" where
  "read_headers py headers [] = headers"
| "read_headers py headers (line # lines) =
     (case decode py line of
        None \<Rightarrow> headers
      | Some s \<Rightarrow> read_headers py (header_line py (strip py s) headers) lines)"

definition plain_header :: "builtins \<Rightarrow> string \<Rightarrow> bool" where
  "plain_header py line =
     (case decode py line of
        None \<Rightarrow> False
      | Some s \<Rightarrow>
          strip py s \<noteq> []
          \<and> \<not> (58 \<in> set (strip py s)
                \<and> strip py (before_colon (strip py s)) = str ''Content-Length''))"

definition blank_line :: "builtins \<Rightarrow> string \<Rightarrow> bool" where
  "blank_line py line = (case decode py line of None \<Rightarrow> False | Some s \<Rightarrow> strip py s = [])"

text \<open>
  The header block of the reply to the subscription, a frame without \<open>Content-Length\<close>.
\<close>

definition reply_lines :: "string list" where
  "reply_lines = [''Content-Type: command/reply'' @ [LF],
                  ''Reply-Text: +OK event listener enabled plain'' @ [LF]]"

section \<open>Verification: the rating lookup\<close>

lemma posibles_prefijos_iff:
  "p \<in> set (posibles_prefijos n) \<longleftrightarrow> p \<noteq> [] \<and> prefix p n"
proof
  assume "p \<in> set (posibles_prefijos n)"
  then obtain i where i: "1 \<le> i" "i \<le> length n" and p: "p = take i n"
    by (auto simp: posibles_prefijos_def)
  from i p have "p \<noteq> []" by auto
  moreover from p have "prefix p n" by (simp add: take_is_prefix)
  ultimately show "p \<noteq> [] \<and> prefix p n" by simp
next
  assume a: "p \<noteq> [] \<and> prefix p n"
  then have t: "p = (\<lambda>i. take i n) (length p)"
    by (auto simp: prefix_def)
  from a have "1 \<le> length p" "length p \<le> length n"
    by (auto simp: prefix_def Suc_le_eq)
  then have "length p \<in> set [1 ..< length n + 1]"
    by auto
  with t show "p \<in> set (posibles_prefijos n)"
    unfolding posibles_prefijos_def set_map by (rule image_eqI)
qed

lemma sort_key_head_least:
  assumes "sort_key f xs = y # ys"
  shows "y \<in> set xs \<and> (\<forall>x \<in> set xs. f y \<le> f x)"
proof -
  have s: "sorted (map f (sort_key f xs))" by (rule sorted_sort_key)
  have m: "set (sort_key f xs) = set xs" by simp
  from s assms have "\<forall>x \<in> set ys. f y \<le> f x" by auto
  moreover from m assms have "set xs = insert y (set ys)" by auto
  ultimately show ?thesis by auto
qed

lemma query_matches_head:
  assumes "query_matches db ps = best # rest"
  shows "best \<in> set db \<and> destination_prefix best \<in> set ps \<and>
         (\<forall>c \<in> set db. destination_prefix c \<in> set ps \<longrightarrow>
             length (destination_prefix c) \<le> length (destination_prefix best))"
  using sort_key_head_least [OF assms [unfolded query_matches_def order_by_length_desc_def]]
  by auto

lemma query_matches_Nil:
  "query_matches db ps = [] \<longleftrightarrow> (\<forall>c \<in> set db. destination_prefix c \<notin> set ps)"
proof -
  have "query_matches db ps = [] \<longleftrightarrow> set (query_matches db ps) = {}" by simp
  also have "\<dots> \<longleftrightarrow> (\<forall>c \<in> set db. destination_prefix c \<notin> set ps)"
    unfolding query_matches_def order_by_length_desc_def by auto
  finally show ?thesis .
qed

lemmas rating_eval =
  determinar_zona_y_tarifa_def query_matches_def order_by_length_desc_def
  posibles_prefijos_def rating_match_def rating_unknown_def rating_empty_def
  verify_rating_db_def new_RateCard_def ascii_isdigit_def str_def




text \<open>
  Claim C4.  The claim says that a card whose \<open>effective_end\<close> lies before the instant of
  the lookup is never selected.  \<open>determinar_zona_y_tarifa\<close> reads no clock and no
  validity column: the card that expired at instant 100 is selected, whatever the
  instant of the call.  The sibling lookup \<open>search_rate_for_number\<close> filters on the
  validity window and finds nothing at instant 200.
\<close>

theorem C4_expired_card_selected:
  "determinar_zona_y_tarifa ascii_isdigit (str ''15551234'') [expired_card]
     = rating_match expired_card
   \<and> effective_end expired_card = Some 100
   \<and> numero_valido (determinar_zona_y_tarifa ascii_isdigit (str ''15551234'') [expired_card])
   \<and> search_rate_for_number ascii_isdigit 200 (str ''15551234'') [expired_card] = Inl HTTP404"
  by (simp add: rating_eval expired_card_def search_rate_for_number_def)

text \<open>
  Claim C5.  The claim says that among matching cards of the same maximal prefix length
  the one with the highest priority is selected, and that the selection depends on the
  set of cards only.  The query orders by prefix length alone: of two cards for the
  prefix "1" the one stored first is selected, the priority-0 card when it comes first,
  while the sibling lookup \<open>search_rate_for_number\<close> orders by priority too and selects
  the priority-10 card in both storage orders.
\<close>

theorem C5_priority_ignored:
  "determinar_zona_y_tarifa ascii_isdigit (str ''15551234'') [low_priority_card, high_priority_card]
     = rating_match low_priority_card
   \<and> determinar_zona_y_tarifa ascii_isdigit (str ''15551234'') [high_priority_card, low_priority_card]
     = rating_match high_priority_card
   \<and> rating_match low_priority_card \<noteq> rating_match high_priority_card
   \<and> priority low_priority_card < priority high_priority_card
   \<and> search_rate_for_number ascii_isdigit 0 (str ''15551234'') [low_priority_card, high_priority_card]
     = Inr high_priority_card
   \<and> search_rate_for_number ascii_isdigit 0 (str ''15551234'') [high_priority_card, low_priority_card]
     = Inr high_priority_card"
  by (simp add: rating_eval low_priority_card_def high_priority_card_def
      search_rate_for_number_def)

text \<open>
  Claim C6.  The rating operation returns a dictionary for every input string (the
  function is total: one of the three results below).  When no digit is left after
  cleaning it returns the invalid-number result: zero rate, no matched entry.  When no
  card's prefix matches it returns the unrated result: zero rate, the sentinel names
  "UNKNOWN" and "Desconocida", and \<open>numero_valido\<close> false.
\<close>

theorem C6_rating_never_raises:
  "(determinar_zona_y_tarifa isdigit numero db = rating_empty
      \<or> determinar_zona_y_tarifa isdigit numero db = rating_unknown numero
      \<or> (\<exists>best. best \<in> set db \<and> determinar_zona_y_tarifa isdigit numero db = rating_match best))
   \<and> (filter isdigit numero = [] \<longrightarrow>
          determinar_zona_y_tarifa isdigit numero db = rating_empty)
   \<and> tarifa_segundo rating_empty = 0 \<and> tarifa_id rating_empty = None
   \<and> prefijo_id rating_empty = None \<and> zona_id rating_empty = None
   \<and> \<not> numero_valido rating_empty
   \<and> (filter isdigit numero \<noteq> []
        \<and> \<not> (\<exists>c \<in> set db. destination_prefix c \<noteq> []
                  \<and> prefix (destination_prefix c) (filter isdigit numero)) \<longrightarrow>
          determinar_zona_y_tarifa isdigit numero db = rating_unknown numero)
   \<and> tarifa_segundo (rating_unknown numero) = 0
   \<and> prefijo (rating_unknown numero) = str ''UNKNOWN''
   \<and> zona_nombre (rating_unknown numero) = str ''Desconocida''
   \<and> tarifa_id (rating_unknown numero) = None
   \<and> \<not> numero_valido (rating_unknown numero)"
proof -
  let ?r = "determinar_zona_y_tarifa isdigit numero db"
  let ?n = "filter isdigit numero"
  have shape: "?r = rating_empty \<or> ?r = rating_unknown numero
      \<or> (\<exists>best. best \<in> set db \<and> ?r = rating_match best)"
  proof (cases "query_matches db (posibles_prefijos ?n)")
    case Nil
    then show ?thesis by (simp add: determinar_zona_y_tarifa_def Let_def)
  next
    case (Cons best rest)
    from query_matches_head [OF Cons] have "best \<in> set db" by simp
    with Cons show ?thesis by (auto simp: determinar_zona_y_tarifa_def Let_def)
  qed
  have empty: "?n = [] \<longrightarrow> ?r = rating_empty"
    by (simp add: determinar_zona_y_tarifa_def)
  have unknown: "?n \<noteq> [] \<and> \<not> (\<exists>c \<in> set db. destination_prefix c \<noteq> []
        \<and> prefix (destination_prefix c) ?n) \<longrightarrow> ?r = rating_unknown numero"
  proof
    assume a: "?n \<noteq> [] \<and> \<not> (\<exists>c \<in> set db. destination_prefix c \<noteq> []
        \<and> prefix (destination_prefix c) ?n)"
    then have "query_matches db (posibles_prefijos ?n) = []"
      by (simp add: query_matches_Nil posibles_prefijos_iff)
    with a show "?r = rating_unknown numero"
      by (simp add: determinar_zona_y_tarifa_def)
  qed
  have fields: "tarifa_segundo rating_empty = 0" "tarifa_id rating_empty = None"
    "prefijo_id rating_empty = None" "zona_id rating_empty = None"
    "\<not> numero_valido rating_empty"
    "tarifa_segundo (rating_unknown numero) = 0"
    "prefijo (rating_unknown numero) = str ''UNKNOWN''"
    "zona_nombre (rating_unknown numero) = str ''Desconocida''"
    "tarifa_id (rating_unknown numero) = None"
    "\<not> numero_valido (rating_unknown numero)"
    by (simp_all add: rating_empty_def rating_unknown_def)
  from shape empty unknown fields show ?thesis by blast
qed

theorem C6_rating_never_raises_witness:
  "filter ascii_isdigit (str ''n/a'') = []
   \<and> determinar_zona_y_tarifa ascii_isdigit (str ''n/a'') verify_rating_db = rating_empty
   \<and> filter ascii_isdigit (str ''999'') \<noteq> []
   \<and> \<not> (\<exists>c \<in> set verify_rating_db. destination_prefix c \<noteq> []
             \<and> prefix (destination_prefix c) (filter ascii_isdigit (str ''999'')))
   \<and> determinar_zona_y_tarifa ascii_isdigit (str ''999'') verify_rating_db
       = rating_unknown (str ''999'')"
proof -
  have e: "filter ascii_isdigit (str ''n/a'') = []"
    by (simp add: ascii_isdigit_def str_def)
  have u: "filter ascii_isdigit (str ''999'') \<noteq> []
      \<and> \<not> (\<exists>c \<in> set verify_rating_db. destination_prefix c \<noteq> []
             \<and> prefix (destination_prefix c) (filter ascii_isdigit (str ''999'')))"
    by (simp add: verify_rating_db_def new_RateCard_def ascii_isdigit_def str_def)
  note c6a = C6_rating_never_raises [of ascii_isdigit "str ''n/a''" verify_rating_db]
  note c6b = C6_rating_never_raises [of ascii_isdigit "str ''999''" verify_rating_db]
  from c6a e have "determinar_zona_y_tarifa ascii_isdigit (str ''n/a'') verify_rating_db = rating_empty"
    by blast
  moreover from c6b u
  have "determinar_zona_y_tarifa ascii_isdigit (str ''999'') verify_rating_db
       = rating_unknown (str ''999'')"
    by blast
  ultimately show ?thesis using e u by blast
qed

section \<open>Verification: the ledger and the cost of a call\<close>

lemma topup_account_transactions:
  "balance_transactions (snd (topup_account i a db)) = balance_transactions db"
  by (simp add: topup_account_def Let_def split: option.splits)

lemma topup_account_found:
  assumes "find (\<lambda>a. acc_id a = i) (accounts db) = Some acc"
  shows "fst (topup_account i a db) = Inr (balance acc + a)"
    and "find (\<lambda>a. acc_id a = i) (accounts (snd (topup_account i a db)))
           = Some (acc \<lparr> balance := balance acc + a \<rparr>)"
proof -
  from assms have i: "acc_id acc = i"
    by (auto simp: find_Some_iff)
  show "fst (topup_account i a db) = Inr (balance acc + a)"
    using assms by (simp add: topup_account_def Let_def)
  have m: "find (\<lambda>a. acc_id a = i) (map (\<lambda>x. if acc_id x = i then x \<lparr> balance := b \<rparr> else x) xs)
          = map_option (\<lambda>x. x \<lparr> balance := b \<rparr>) (find (\<lambda>a. acc_id a = i) xs)" for b xs
    by (induction xs) auto
  have "accounts (snd (topup_account i a db))
      = map (\<lambda>x. if acc_id x = i then x \<lparr> balance := balance acc + a \<rparr> else x) (accounts db)"
    using assms i by (simp add: topup_account_def Let_def)
  then show "find (\<lambda>a. acc_id a = i) (accounts (snd (topup_account i a db)))
           = Some (acc \<lparr> balance := balance acc + a \<rparr>)"
    using assms by (simp only: m) simp
qed

lemma recargar_saldo_logs:
  "length (saldo_auditoria (recargar_saldo n a db)) = length (saldo_auditoria db) + 1"
  "length (recargas (recargar_saldo n a db)) = length (recargas db) + 1"
  by (simp_all add: recargar_saldo_def Let_def)

text \<open>
  Claim C1.  The claim says that the balance of an account is its initial balance plus
  the signed sum of the transactions that reference it, and that a top-up of amount A
  increases the balance by A and appends a transaction of amount A.  \<open>topup_account\<close>
  adds the amount to the balance and writes nothing to \<open>balance_transactions\<close>, for every
  ledger, account and amount: after a top-up of 5 on an account of balance 0 the balance
  is 5 and the table is empty, so the ledger that was reconciled no longer is.  The
  recharge of the legacy balance, \<open>recargar_saldo\<close>, appends its audit row and its
  recharge row.
\<close>

theorem C1_topup_writes_no_transaction:
  "balance_transactions (snd (topup_account i a db)) = balance_transactions db
   \<and> fst (topup_account 1 5 one_account) = Inr 5
   \<and> map balance (accounts (snd (topup_account 1 5 one_account))) = [5]
   \<and> balance_transactions (snd (topup_account 1 5 one_account)) = []
   \<and> reconciled (\<lambda>i. 0) one_account
   \<and> \<not> reconciled (\<lambda>i. 0) (snd (topup_account 1 5 one_account))
   \<and> length (saldo_auditoria (recargar_saldo n a legacy)) = length (saldo_auditoria legacy) + 1
   \<and> length (recargas (recargar_saldo n a legacy)) = length (recargas legacy) + 1"
proof -
  have "fst (topup_account 1 5 one_account) = Inr 5
     \<and> map balance (accounts (snd (topup_account 1 5 one_account))) = [5]
     \<and> balance_transactions (snd (topup_account 1 5 one_account)) = []
     \<and> reconciled (\<lambda>i. 0) one_account
     \<and> \<not> reconciled (\<lambda>i. 0) (snd (topup_account 1 5 one_account))"
    by (simp add: topup_account_def one_account_def reconciled_def transactions_sum_def)
  with topup_account_transactions [of i a db] recargar_saldo_logs [of n a legacy]
  show ?thesis by simp
qed









section \<open>Verification: the active calls\<close>























lemmas report_eval =
  report_active_call_def create_report_def answer_report_def dict_get_def dict_get_default_def
  py_or_def rating_raises_def start_time_of_def str_def Let_def merge_call_data_def
  dict_items_def setattr_ActiveCall_def replace_Z_def created_row_def

lemma create_report_row:
  "report_active_call (\<lambda>_. True) (\<lambda>_. Some 0) 1 create_report [] = (Inr Status_ok, [created_row])"
  by (simp add: report_eval)




lemma find_None_delete:
  "find P xs = None \<Longrightarrow> delete_first P xs = xs"
  by (induction xs) (auto split: if_splits)












section \<open>Verification: the event-socket client\<close>

lemma run_Cons:
  "run py (p, stack) (out # script) =
     (case snd (step py p stack out) of
        None \<Rightarrow> (fst (step py p stack out), None)
      | Some cfg' \<Rightarrow> (fst (step py p stack out) @ fst (run py cfg' script),
                      snd (run py cfg' script)))"
  by (simp split: prod.splits option.splits)



lemma header_line_keeps:
  assumes "map_of h K = None"
    and "\<not> (58 \<in> set l \<and> strip py (before_colon l) = K)"
  shows "map_of (header_line py l h) K = None"
  using assms by (auto simp: header_line_def update_conv)

lemma read_headers_keeps:
  assumes "list_all (plain_header py) lines" "map_of h (str ''Content-Length'') = None"
  shows "map_of (read_headers py h lines) (str ''Content-Length'') = None"
  using assms
proof (induction lines arbitrary: h)
  case Nil
  then show ?case by simp
next
  case (Cons l lines)
  from Cons.prems(1) have hd: "plain_header py l" and rest: "list_all (plain_header py) lines"
    by simp_all
  from hd obtain s where s: "decode py l = Some s"
    and n: "\<not> (58 \<in> set (strip py s) \<and> strip py (before_colon (strip py s)) = str ''Content-Length'')"
    unfolding plain_header_def by (cases "decode py l") auto
  from Cons.prems(2) n have "map_of (header_line py (strip py s) h) (str ''Content-Length'') = None"
    by (rule header_line_keeps)
  from Cons.IH [OF rest this] s show ?case by simp
qed

lemma run_header_lines:
  assumes "list_all (plain_header py) lines"
  shows "run py (Headers h, stack) (map Ok lines @ rest)
      = run py (Headers (read_headers py h lines), stack) rest"
  using assms
proof (induction lines arbitrary: h)
  case Nil
  then show ?case by simp
next
  case (Cons l lines)
  from Cons.prems have hd: "plain_header py l" and rest: "list_all (plain_header py) lines"
    by simp_all
  from hd obtain s where s: "decode py l = Some s" and ne: "strip py s \<noteq> []"
    unfolding plain_header_def by (cases "decode py l") auto
  have "step py (Headers h) stack (Ok l)
      = ([], Some (Headers (header_line py (strip py s) h), stack))"
    using s ne by simp
  then have "run py (Headers h, stack) (Ok l # (map Ok lines @ rest))
      = run py (Headers (header_line py (strip py s) h), stack) (map Ok lines @ rest)"
    by (simp add: run_Cons)
  with Cons.IH [OF rest, of "header_line py (strip py s) h"] s show ?case by simp
qed

lemma run_blank_no_length:
  assumes "blank_line py blank" "map_of h (str ''Content-Length'') = None"
  shows "run py (Headers h, stack) (Ok blank # rest) = run py (Headers [], stack) rest"
proof -
  from assms(1) obtain s where "decode py blank = Some s" "strip py s = []"
    by (auto simp: blank_line_def split: option.splits)
  with assms(2) have "step py (Headers h) stack (Ok blank) = ([], Some (Headers [], stack))"
    by (simp add: end_of_headers_def)
  then show ?thesis by (simp add: run_Cons)
qed

lemma step_Process_only_with_body:
  assumes "Process ev \<in> set (fst (step py p stack out))"
  shows "p = Body \<or> (\<exists>h. p = Headers h \<and> map_of h (str ''Content-Length'') \<noteq> None)"
proof (cases p)
  case (Headers h)
  show ?thesis
  proof (cases "map_of h (str ''Content-Length'')")
    case None
    with assms Headers have False
      by (cases out) (auto simp: end_of_headers_def listen_except_def split: option.splits if_splits)
    then show ?thesis ..
  next
    case (Some v)
    with Headers show ?thesis by simp
  qed
qed (use assms in \<open>cases out; auto simp: connect_except_def listen_except_def
      split: option.splits if_splits\<close>)+





lemma reply_lines_plain: "list_all (plain_header ascii_builtins) reply_lines \<and> blank_line ascii_builtins [LF]"
  by (simp add: reply_lines_def plain_header_def blank_line_def strip_def ascii_builtins_def
      ascii_decode_def LF_def before_colon_def str_def)

text \<open>
  Claim C10.  In the listening loop a frame whose header lines set no \<open>Content-Length\<close>
  produces no action at all: after its blank line the client is where it was before
  the frame, with empty headers, and goes on with the rest of the stream.  An awaited
  call of the client leads to \<open>process_event\<close> only at the read of a body, or at the end
  of a header block that holds \<open>Content-Length\<close>.
\<close>

theorem C10_header_only_frame_discarded:
  "(list_all (plain_header py) lines \<and> blank_line py blank \<longrightarrow>
      run py (Headers [], stack) (map Ok lines @ Ok blank # rest)
        = run py (Headers [], stack) rest)
   \<and> (Process ev \<in> set (fst (step py p stack out)) \<longrightarrow>
        p = Body \<or> (\<exists>h. p = Headers h \<and> map_of h (str ''Content-Length'') \<noteq> None))"
proof (intro conjI impI)
  assume a: "list_all (plain_header py) lines \<and> blank_line py blank"
  then have k: "map_of (read_headers py [] lines) (str ''Content-Length'') = None"
    by (intro read_headers_keeps) simp_all
  have "run py (Headers [], stack) (map Ok lines @ Ok blank # rest)
      = run py (Headers (read_headers py [] lines), stack) (Ok blank # rest)"
    by (rule run_header_lines [OF conjunct1 [OF a]])
  also have "\<dots> = run py (Headers [], stack) rest"
    by (rule run_blank_no_length [OF conjunct2 [OF a] k])
  finally show "run py (Headers [], stack) (map Ok lines @ Ok blank # rest)
        = run py (Headers [], stack) rest" .
next
  assume "Process ev \<in> set (fst (step py p stack out))"
  then show "p = Body \<or> (\<exists>h. p = Headers h \<and> map_of h (str ''Content-Length'') \<noteq> None)"
    by (rule step_Process_only_with_body)
qed


theorem C10_header_only_frame_discarded_witness:
  "list_all (plain_header ascii_builtins) reply_lines \<and> blank_line ascii_builtins [LF]
   \<and> run ascii_builtins (Headers [], []) (map Ok reply_lines @ [Ok [LF]])
       = ([], Some (Headers [], []))
   \<and> Process [] \<in> set (fst (step ascii_builtins
         (Headers [(str ''Content-Length'', str ''0'')]) [] (Ok [LF])))
   \<and> map_of [(str ''Content-Length'', str ''0'')] (str ''Content-Length'') \<noteq> None"
proof -
  note t = C10_header_only_frame_discarded [where py = ascii_builtins and lines = reply_lines
      and blank = "[LF]" and stack = "[]" and rest = "[]" and ev = "[]"
      and p = "Headers [(str ''Content-Length'', str ''0'')]" and out = "Ok [LF]"]
  from t [THEN conjunct1, THEN mp, OF reply_lines_plain]
  have r: "run ascii_builtins (Headers [], []) (map Ok reply_lines @ [Ok [LF]])
       = ([], Some (Headers [], []))"
    by simp
  have p: "Process [] \<in> set (fst (step ascii_builtins
         (Headers [(str ''Content-Length'', str ''0'')]) [] (Ok [LF])))"
    by (simp add: end_of_headers_def dispatch_def parse_event_body_def process_event_def
        header_line_def Let_def strip_def ascii_builtins_def ascii_decode_def LF_def
        ascii_int_def ascii_isdigit_def str_def)
  from t [THEN conjunct2, THEN mp, OF p]
  have "map_of [(str ''Content-Length'', str ''0'')] (str ''Content-Length'') \<noteq> None"
    by simp
  with reply_lines_plain r p show ?thesis by (intro conjI) simp_all
qed

end
